theory Spec2Isabelle
  imports Main "HOL-Library.Sublist"
begin

section \<open>The distribution installer of virtinst: data model\<close>

text \<open>
  The embedding follows \<^verbatim>\<open>virtinst/distroinstaller.py\<close> and \<^verbatim>\<open>debug-nodedev.py\<close>.
  Names are the source's, without the leading underscore of private members.
\<close>

subsection \<open>Media types\<close>

text \<open>
  The source enumerates the media types as the integers of \<^verbatim>\<open>range(1, 7)\<close>, in this order.
\<close>

datatype media_type =
    MEDIA_LOCATION_DIR
  | MEDIA_LOCATION_CDROM
  | MEDIA_LOCATION_URL
  | MEDIA_CDROM_PATH
  | MEDIA_CDROM_URL
  | MEDIA_CDROM_IMPLIED

subsection \<open>The filesystem and the connection\<close>

text \<open>
  What \<^verbatim>\<open>os.stat\<close> finds at a path: nothing, a directory, or anything else (a file, a
  device node). \<^verbatim>\<open>os.path.exists\<close> and \<^verbatim>\<open>os.path.isdir\<close> both answer from that one
  lookup, and the empty path names nothing.
\<close>

datatype fkind = Directory | Other

type_synonym filesystem = "string \<Rightarrow> fkind option"

definition os_path_exists :: "filesystem \<Rightarrow> string \<Rightarrow> bool" where
  "os_path_exists os p = (p \<noteq> [] \<and> os p \<noteq> None)"

definition os_path_isdir :: "filesystem \<Rightarrow> string \<Rightarrow> bool" where
  "os_path_isdir os p = (p \<noteq> [] \<and> os p = Some Directory)"

record conn =
  is_remote :: bool

subsection \<open>Exceptions\<close>

text \<open>
  What Python can raise: the class and the message that \<^verbatim>\<open>str\<close> gives.
  \<^verbatim>\<open>UnicodeError\<close> stands for the subclasses of \<^verbatim>\<open>ValueError\<close>, which
  \<^verbatim>\<open>except ValueError\<close> catches as well. \<^verbatim>\<open>KeyboardInterrupt\<close> and \<^verbatim>\<open>SystemExit\<close>
  derive from \<^verbatim>\<open>BaseException\<close> only: \<^verbatim>\<open>except Exception\<close> does not catch them. All the
  other classes are subclasses of \<^verbatim>\<open>Exception\<close>.
\<close>

datatype exn_class =
    ValueError
  | UnicodeError
  | TypeError
  | AttributeError
  | UnboundLocalError
  | OSError
  | RuntimeError
  | KeyboardInterrupt
  | SystemExit

datatype exn = Exn exn_class string

fun exn_cls :: "exn \<Rightarrow> exn_class" where
  "exn_cls (Exn c m) = c"

fun str_exn :: "exn \<Rightarrow> string" where
  "str_exn (Exn c m) = m"

definition isinstance_ValueError :: "exn \<Rightarrow> bool" where
  "isinstance_ValueError e = (exn_cls e = ValueError \<or> exn_cls e = UnicodeError)"

subsection \<open>Python values that may be None\<close>

text \<open>Truthiness of a value that is None or a string.\<close>

definition truthy :: "string option \<Rightarrow> bool" where
  "truthy v = (case v of None \<Rightarrow> False | Some s \<Rightarrow> s \<noteq> [])"

text \<open>\<^verbatim>\<open>str(v)\<close> and \<^verbatim>\<open>"%s" % v\<close> for such a value.\<close>

definition str_val :: "string option \<Rightarrow> string" where
  "str_val v = (case v of None \<Rightarrow> ''None'' | Some s \<Rightarrow> s)"

text \<open>\<^verbatim>\<open>v.startswith(p)\<close>: None has no such attribute.\<close>

definition startswith :: "string option \<Rightarrow> string \<Rightarrow> exn + bool" where
  "startswith v p = (case v of
       None \<Rightarrow> Inl (Exn AttributeError ''startswith'')
     | Some s \<Rightarrow> Inr (prefix p s))"

section \<open>The media classifier\<close>

text \<open>
  \<^verbatim>\<open>_is_url(conn, url)\<close>. With None for \<^verbatim>\<open>url\<close>, \<^verbatim>\<open>os.path.exists\<close> raises TypeError on a
  local connection, and \<^verbatim>\<open>url.startswith\<close> raises AttributeError on a remote one.
\<close>

definition is_url :: "filesystem \<Rightarrow> conn \<Rightarrow> string option \<Rightarrow> exn + bool" where
  "is_url os c url = (case url of
       None \<Rightarrow>
         (if \<not> is_remote c then Inl (Exn TypeError ''stat'') else startswith url ''http://'')
     | Some u \<Rightarrow>
         (if \<not> is_remote c \<and> os_path_exists os u then Inr (os_path_isdir os u)
          else Inr (prefix ''http://'' u \<or> prefix ''https://'' u \<or> prefix ''ftp://'' u)))"

text \<open>
  The expression \<^verbatim>\<open>v and f(v)\<close> as a condition: \<^verbatim>\<open>f\<close> is only evaluated when \<^verbatim>\<open>v\<close> is a
  non-empty string.
\<close>

definition and_then :: "string option \<Rightarrow> (string \<Rightarrow> bool) \<Rightarrow> bool" where
  "and_then v f = (case v of None \<Rightarrow> False | Some u \<Rightarrow> u \<noteq> [] \<and> f u)"

subsection \<open>Collaborator objects\<close>

type_synonym meter = nat

record fetcher =
  fetcher_uri :: "string option"
  scratchdir :: string
  meter :: meter

datatype store = Store string

record guest =
  guest_conn :: conn
  guest_type :: string

subsection \<open>Installer state\<close>

record installer =
  conn :: conn
  location :: "string option"
  cdrom :: bool
  livecd :: bool
  cached_fetcher :: "fetcher option"
  cached_store :: "store option"
  cdrom_path :: "string option"
  tmpfiles :: "string list"
  tmpvols :: "string list"
  install_kernel :: "string option"
  install_initrd :: "string option"
  extraargs :: "string list"
  initrd_injections :: "string list"

text \<open>\<^verbatim>\<open>DistroInstaller._get_media_type\<close>\<close>

definition get_media_type :: "filesystem \<Rightarrow> installer \<Rightarrow> media_type" where
  "get_media_type os s =
     (if cdrom s \<and> \<not> truthy (location s) then MEDIA_CDROM_IMPLIED
      else if and_then (location s) (\<lambda>u. is_url os (conn s) (Some u) = Inr True) then
        (if cdrom s then MEDIA_CDROM_URL else MEDIA_LOCATION_URL)
      else if cdrom s then MEDIA_CDROM_PATH
      else if and_then (location s) (os_path_isdir os) then MEDIA_LOCATION_DIR
      else MEDIA_LOCATION_CDROM)"

text \<open>\<^verbatim>\<open>DistroInstaller._get_bootdev\<close>\<close>

definition get_bootdev :: "filesystem \<Rightarrow> installer \<Rightarrow> bool \<Rightarrow> guest \<Rightarrow> string" where
  "get_bootdev os s isinstall g =
     (let mediatype = get_media_type os s;
          local = (mediatype \<in> set [MEDIA_CDROM_PATH, MEDIA_CDROM_IMPLIED,
                                      MEDIA_LOCATION_DIR, MEDIA_LOCATION_CDROM]);
          persistent_cd = (local \<and> cdrom s \<and> livecd s)
      in if isinstall \<or> persistent_cd then ''cdrom'' else ''hd'')"

text \<open>\<^verbatim>\<open>DistroInstaller.needs_cdrom\<close>\<close>

definition needs_cdrom :: "filesystem \<Rightarrow> installer \<Rightarrow> bool" where
  "needs_cdrom os s =
     (get_media_type os s \<in> set [MEDIA_CDROM_PATH, MEDIA_LOCATION_CDROM, MEDIA_CDROM_URL])"

subsection \<open>The classifier as the specification words it\<close>

text \<open>
  The URL classification in the specification's words: on a remote connection any string;
  on a local connection a path that does not exist, or a string with one of the scheme
  prefixes.
\<close>

definition has_scheme :: "string \<Rightarrow> bool" where
  "has_scheme u = (prefix ''http://'' u \<or> prefix ''https://'' u \<or> prefix ''ftp://'' u)"

definition spec_is_url :: "filesystem \<Rightarrow> conn \<Rightarrow> string \<Rightarrow> bool" where
  "spec_is_url os c u =
     (if is_remote c then True
      else if os_path_exists os u then has_scheme u
      else True)"

text \<open>
  The decision order of the specification, first match wins, over: a location is set, the
  cdrom flag, the location is classified as a URL, the location is an existing directory.
\<close>

definition spec_media_type :: "bool \<Rightarrow> bool \<Rightarrow> bool \<Rightarrow> bool \<Rightarrow> media_type" where
  "spec_media_type location_set cdrom_flag url existing_dir =
     (if cdrom_flag \<and> \<not> location_set then MEDIA_CDROM_IMPLIED
      else if location_set \<and> url \<and> cdrom_flag then MEDIA_CDROM_URL
      else if location_set \<and> url \<and> \<not> cdrom_flag then MEDIA_LOCATION_URL
      else if cdrom_flag then MEDIA_CDROM_PATH
      else if existing_dir then MEDIA_LOCATION_DIR
      else MEDIA_LOCATION_CDROM)"

text \<open>The specification's decision order with the specification's URL classification.\<close>

definition spec_get_media_type :: "filesystem \<Rightarrow> installer \<Rightarrow> media_type" where
  "spec_get_media_type os s =
     spec_media_type (truthy (location s)) (cdrom s)
       (and_then (location s) (spec_is_url os (conn s)))
       (and_then (location s) (os_path_isdir os))"

section \<open>Effects: collaborators, history, exceptions\<close>

text \<open>
  The collaborators (URL fetcher, distro store, OS database, device validation, upload
  helpers) are not part of this module. Each call to one is recorded in a history, in
  order, together with every log record; what a call returns or raises is a parameter
  that may depend on the history before the call.
\<close>

datatype level = DEBUG | WARNING

datatype event =
    Call_make_scratchdir
  | Call_fetcherForURI "string option"
  | Call_prepareLocation fetcher
  | Call_cleanupLocation fetcher
  | Call_getDistroStore fetcher
  | Call_acquireBootISO store
  | Call_acquireKernel store
  | Call_perform_initrd_injections
  | Call_get_system_scratchdir
  | Call_upload_kernel_initrd
  | Call_get_osdict_info store
  | Call_lookup_os_by_media "string option"
  | Call_DeviceDisk_validate "string option"
  | Log level string

record ext =
  ensure_meter :: "meter option \<Rightarrow> meter"
  make_scratchdir :: "event list \<Rightarrow> guest \<Rightarrow> exn + string"
  fetcherForURI :: "event list \<Rightarrow> string option \<Rightarrow> string \<Rightarrow> meter \<Rightarrow> exn + fetcher"
  prepareLocation :: "event list \<Rightarrow> fetcher \<Rightarrow> exn + unit"
  cleanupLocation :: "event list \<Rightarrow> fetcher \<Rightarrow> exn + unit"
  getDistroStore :: "event list \<Rightarrow> guest \<Rightarrow> fetcher \<Rightarrow> exn + store"
  acquireBootISO :: "event list \<Rightarrow> store \<Rightarrow> exn + string"
  acquireKernel :: "event list \<Rightarrow> store \<Rightarrow> exn + string \<times> string option \<times> string option"
  perform_initrd_injections ::
    "event list \<Rightarrow> string option \<Rightarrow> string list \<Rightarrow> string \<Rightarrow> exn + unit"
  get_system_scratchdir :: "event list \<Rightarrow> string \<Rightarrow> exn + string"
  upload_kernel_initrd ::
    "event list \<Rightarrow> conn \<Rightarrow> string \<Rightarrow> string \<Rightarrow> meter \<Rightarrow> string \<Rightarrow> string option
       \<Rightarrow> exn + string \<times> string option \<times> string list"
  get_osdict_info :: "event list \<Rightarrow> store \<Rightarrow> exn + string option"
  lookup_os_by_media :: "event list \<Rightarrow> string option \<Rightarrow> exn + string option"
  DeviceDisk_validate :: "event list \<Rightarrow> conn \<Rightarrow> string option \<Rightarrow> exn + string option"

text \<open>
  The state a method runs in: the installer object and the history. A method with a local
  variable that is assigned inside a \<^verbatim>\<open>try\<close> block and read after it runs in an extension
  of this record that holds the local.
\<close>

record world =
  self :: installer
  history :: "event list"

type_synonym ('z, 'a) action = "'z world_scheme \<Rightarrow> (exn + 'a) \<times> 'z world_scheme"

definition ret :: "'a \<Rightarrow> ('z, 'a) action" where
  "ret x = (\<lambda>w. (Inr x, w))"

definition throw :: "exn \<Rightarrow> ('z, 'a) action" where
  "throw e = (\<lambda>w. (Inl e, w))"

text \<open>A pure expression that may raise.\<close>

definition lift :: "exn + 'a \<Rightarrow> ('z, 'a) action" where
  "lift r = (\<lambda>w. (r, w))"

text \<open>Sequencing: an exception skips the rest.\<close>

definition bnd :: "('z, 'a) action \<Rightarrow> ('a \<Rightarrow> ('z, 'b) action) \<Rightarrow> ('z, 'b) action" where
  "bnd m f = (\<lambda>w. case m w of (Inl e, w') \<Rightarrow> (Inl e, w') | (Inr x, w') \<Rightarrow> f x w')"

definition call :: "event \<Rightarrow> (event list \<Rightarrow> exn + 'a) \<Rightarrow> ('z, 'a) action" where
  "call ev f = (\<lambda>w. (f (history w), w\<lparr>history := history w @ [ev]\<rparr>))"

definition logging :: "level \<Rightarrow> string \<Rightarrow> ('z, unit) action" where
  "logging lvl msg = (\<lambda>w. (Inr (), w\<lparr>history := history w @ [Log lvl msg]\<rparr>))"

definition read_self :: "(installer \<Rightarrow> 'a) \<Rightarrow> ('z, 'a) action" where
  "read_self f = (\<lambda>w. (Inr (f (self w)), w))"

definition update_self :: "(installer \<Rightarrow> installer) \<Rightarrow> ('z, unit) action" where
  "update_self f = (\<lambda>w. (Inr (), w\<lparr>self := f (self w)\<rparr>))"

text \<open>\<^verbatim>\<open>try: m  except C as e: h(e)\<close>, with \<^verbatim>\<open>catches\<close> the instances of \<^verbatim>\<open>C\<close>.\<close>

definition try_except ::
  "('z, 'a) action \<Rightarrow> (exn \<Rightarrow> bool) \<Rightarrow> (exn \<Rightarrow> ('z, 'a) action) \<Rightarrow> ('z, 'a) action" where
  "try_except m catches h = (\<lambda>w. case m w of
       (Inl e, w') \<Rightarrow> (if catches e then h e w' else (Inl e, w'))
     | (Inr x, w') \<Rightarrow> (Inr x, w'))"

definition isinstance_Exception :: "exn \<Rightarrow> bool" where
  "isinstance_Exception e = (exn_cls e \<noteq> KeyboardInterrupt \<and> exn_cls e \<noteq> SystemExit)"

text \<open>
  \<^verbatim>\<open>try: m  finally: fin\<close>. The clause runs however \<^verbatim>\<open>m\<close> ends; an exception of the clause
  replaces the outcome of \<^verbatim>\<open>m\<close>.
\<close>

definition try_finally :: "('z, 'a) action \<Rightarrow> ('z, unit) action \<Rightarrow> ('z, 'a) action" where
  "try_finally m fin = (\<lambda>w. case m w of (r, w') \<Rightarrow>
       (case fin w' of (Inl e, w'') \<Rightarrow> (Inl e, w'') | (Inr u, w'') \<Rightarrow> (r, w'')))"

text \<open>
  \<^verbatim>\<open>try: v = m; body  finally: fin\<close>, where \<^verbatim>\<open>fin\<close> reads the local \<^verbatim>\<open>v\<close>: it is unbound
  (None) when the assignment itself raised.
\<close>

definition try_finally_local ::
  "('z, 'v) action \<Rightarrow> ('v \<Rightarrow> ('z, 'a) action) \<Rightarrow> ('v option \<Rightarrow> ('z, unit) action)
     \<Rightarrow> ('z, 'a) action" where
  "try_finally_local m body fin = (\<lambda>w. case m w of
       (Inl e, w') \<Rightarrow> try_finally (throw e) (fin None) w'
     | (Inr v, w') \<Rightarrow> try_finally (body v) (fin (Some v)) w')"

text \<open>\<^verbatim>\<open>fetcher.cleanupLocation()\<close> in a \<^verbatim>\<open>finally\<close> clause, \<^verbatim>\<open>fetcher\<close> being such a local.\<close>

definition cleanup_local :: "ext \<Rightarrow> fetcher option \<Rightarrow> ('z, unit) action" where
  "cleanup_local x fo = (case fo of
       None \<Rightarrow> throw (Exn UnboundLocalError ''fetcher'')
     | Some fetcher \<Rightarrow> call (Call_cleanupLocation fetcher) (\<lambda>h. cleanupLocation x h fetcher))"

section \<open>The installer's operations\<close>

text \<open>\<^verbatim>\<open>DistroInstaller._get_fetcher\<close>\<close>

definition get_fetcher :: "ext \<Rightarrow> guest \<Rightarrow> meter option \<Rightarrow> ('z, fetcher) action" where
  "get_fetcher x g meter0 =
     bnd (ret (ensure_meter x meter0)) (\<lambda>m.
     bnd (read_self cached_fetcher) (\<lambda>cached.
     bnd (case cached of
            None \<Rightarrow>
              bnd (call Call_make_scratchdir (\<lambda>h. make_scratchdir x h g)) (\<lambda>dir.
              bnd (read_self location) (\<lambda>loc.
              bnd (call (Call_fetcherForURI loc) (\<lambda>h. fetcherForURI x h loc dir m)) (\<lambda>f.
              bnd (update_self (\<lambda>s. s\<lparr>cached_fetcher := Some f\<rparr>)) (\<lambda>u.
              ret f))))
          | Some f \<Rightarrow> ret f) (\<lambda>f.
     bnd (update_self (\<lambda>s. s\<lparr>cached_fetcher := Some (f\<lparr>meter := m\<rparr>)\<rparr>)) (\<lambda>u.
     ret (f\<lparr>meter := m\<rparr>)))))"

text \<open>\<^verbatim>\<open>DistroInstaller._get_store\<close>\<close>

definition get_store :: "ext \<Rightarrow> guest \<Rightarrow> fetcher \<Rightarrow> ('z, store) action" where
  "get_store x g fetcher =
     bnd (read_self cached_store) (\<lambda>cached.
     case cached of
       None \<Rightarrow>
         bnd (call (Call_getDistroStore fetcher) (\<lambda>h. getDistroStore x h g fetcher)) (\<lambda>st.
         bnd (update_self (\<lambda>s. s\<lparr>cached_store := Some st\<rparr>)) (\<lambda>u.
         ret st))
     | Some st \<Rightarrow> ret st)"

text \<open>\<^verbatim>\<open>DistroInstaller._prepare_cdrom_url\<close>\<close>

definition prepare_cdrom_url :: "ext \<Rightarrow> guest \<Rightarrow> fetcher \<Rightarrow> ('z, string) action" where
  "prepare_cdrom_url x g fetcher =
     bnd (get_store x g fetcher) (\<lambda>st.
     bnd (call (Call_acquireBootISO st) (\<lambda>h. acquireBootISO x h st)) (\<lambda>media.
     bnd (update_self (\<lambda>s. s\<lparr>tmpfiles := tmpfiles s @ [media]\<rparr>)) (\<lambda>u.
     ret media)))"

text \<open>\<^verbatim>\<open>DistroInstaller._prepare_kernel_url\<close>\<close>

definition prepare_kernel_url :: "ext \<Rightarrow> guest \<Rightarrow> fetcher \<Rightarrow> ('z, unit) action" where
  "prepare_kernel_url x g fetcher =
     bnd (get_store x g fetcher) (\<lambda>st.
     bnd (call (Call_acquireKernel st) (\<lambda>h. acquireKernel x h st)) (\<lambda>(kernel, initrd, args).
     bnd (update_self (\<lambda>s. s\<lparr>tmpfiles := tmpfiles s @ [kernel]\<rparr>)) (\<lambda>u.
     bnd (if truthy initrd
          then update_self (\<lambda>s. s\<lparr>tmpfiles := tmpfiles s @ [str_val initrd]\<rparr>)
          else ret ()) (\<lambda>u.
     bnd (read_self initrd_injections) (\<lambda>inj.
     bnd (call Call_perform_initrd_injections
            (\<lambda>h. perform_initrd_injections x h initrd inj (scratchdir fetcher))) (\<lambda>u.
     bnd (call Call_get_system_scratchdir
            (\<lambda>h. get_system_scratchdir x h (guest_type g))) (\<lambda>sysdir.
     bnd (call Call_upload_kernel_initrd
            (\<lambda>h. upload_kernel_initrd x h (guest_conn g) (scratchdir fetcher) sysdir
                    (meter fetcher) kernel initrd)) (\<lambda>(kernel', initrd', vols).
     bnd (update_self (\<lambda>s. s\<lparr>tmpvols := tmpvols s @ vols\<rparr>)) (\<lambda>u.
     bnd (update_self (\<lambda>s. s\<lparr>install_kernel := Some kernel'\<rparr>)) (\<lambda>u.
     bnd (update_self (\<lambda>s. s\<lparr>install_initrd := initrd'\<rparr>)) (\<lambda>u.
     if truthy args
     then update_self (\<lambda>s. s\<lparr>extraargs := extraargs s @ [str_val args]\<rparr>)
     else ret ())))))))))))"

text \<open>
  \<^verbatim>\<open>DistroInstaller._validate_location\<close>. The device descriptor (a \<^verbatim>\<open>DeviceDisk\<close> of type
  cdrom, its path set to \<^verbatim>\<open>val\<close>, validated, its path read back) is one collaborator call.
  The translation function \<^verbatim>\<open>_\<close> is the identity.
\<close>

definition nfs_warning :: string where
  "nfs_warning = ''NFS URL installs are no longer supported. '' @
     ''Access your install media over an alternate transport '' @
     ''like HTTP, or manually mount the NFS share and install '' @
     ''from the local directory mount point.''"

definition validate_location ::
  "filesystem \<Rightarrow> ext \<Rightarrow> string option \<Rightarrow> ('z, string option) action" where
  "validate_location os x val =
     bnd (update_self (\<lambda>s. s\<lparr>cached_store := None\<rparr>)) (\<lambda>u.
     bnd (update_self (\<lambda>s. s\<lparr>cached_fetcher := None\<rparr>)) (\<lambda>u.
     bnd (read_self conn) (\<lambda>c.
     bnd (lift (is_url os c val)) (\<lambda>isurl.
     if isurl then
       bnd (logging DEBUG ''DistroInstaller location is a network source.'') (\<lambda>u.
       ret val)
     else
       try_except
         (call (Call_DeviceDisk_validate val) (\<lambda>h. DeviceDisk_validate x h c val))
         isinstance_Exception
         (\<lambda>e.
            bnd (logging DEBUG ''Error validating install location'') (\<lambda>u.
            bnd (lift (startswith val ''nfs:'')) (\<lambda>nfs.
            bnd (if nfs then logging WARNING nfs_warning else ret ()) (\<lambda>u.
            throw (Exn ValueError
              (''Validating install media '' @ [CHR 0x27] @ str_val val @ [CHR 0x27] @
               '' failed: '' @ str_exn e))))))))))"

text \<open>\<^verbatim>\<open>DistroInstaller._prepare\<close>\<close>

definition prepare :: "filesystem \<Rightarrow> ext \<Rightarrow> guest \<Rightarrow> meter option \<Rightarrow> ('z, unit) action" where
  "prepare os x g meter0 =
     bnd (read_self (get_media_type os)) (\<lambda>mediatype.
     if mediatype = MEDIA_CDROM_IMPLIED then ret ()
     else
       bnd (read_self location) (\<lambda>loc.
       bnd (ret (if mediatype = MEDIA_CDROM_PATH \<or> mediatype = MEDIA_LOCATION_CDROM
                 then loc else None)) (\<lambda>cdrom_path0.
       bnd (if mediatype \<noteq> MEDIA_CDROM_PATH then
              bnd (get_fetcher x g meter0) (\<lambda>fetcher.
              try_finally
                (bnd (try_except
                        (call (Call_prepareLocation fetcher) (\<lambda>h. prepareLocation x h fetcher))
                        isinstance_ValueError
                        (\<lambda>e.
                           bnd (logging DEBUG ''Error preparing install location'') (\<lambda>u.
                           throw (Exn ValueError
                             (''Invalid install location: '' @ str_exn e))))) (\<lambda>u.
                 if mediatype = MEDIA_CDROM_URL then
                   bnd (prepare_cdrom_url x g fetcher) (\<lambda>media. ret (Some media))
                 else
                   bnd (prepare_kernel_url x g fetcher) (\<lambda>u. ret cdrom_path0)))
                (call (Call_cleanupLocation fetcher) (\<lambda>h. cleanupLocation x h fetcher)))
            else ret cdrom_path0) (\<lambda>cdrom_path1.
       update_self (\<lambda>s. s\<lparr>cdrom_path := cdrom_path1\<rparr>)))))"

text \<open>\<^verbatim>\<open>DistroInstaller.check_location\<close>\<close>

definition check_location :: "filesystem \<Rightarrow> ext \<Rightarrow> guest \<Rightarrow> ('z, bool) action" where
  "check_location os x g =
     bnd (read_self (get_media_type os)) (\<lambda>mediatype.
     if mediatype \<notin> set [MEDIA_CDROM_URL, MEDIA_LOCATION_URL] then ret True
     else
       bnd (try_finally_local (get_fetcher x g None)
              (\<lambda>fetcher.
                 bnd (call (Call_prepareLocation fetcher)
                        (\<lambda>h. prepareLocation x h fetcher)) (\<lambda>u.
                 bnd (get_store x g fetcher) (\<lambda>ignore.
                 ret ())))
              (cleanup_local x)) (\<lambda>u.
       ret True))"

text \<open>
  \<^verbatim>\<open>DistroInstaller.detect_distro\<close>. Its local \<^verbatim>\<open>distro\<close> is assigned inside the \<^verbatim>\<open>try\<close>
  block and returned after it, so the method runs in a state that holds this local.
\<close>

record frame = world +
  distro :: "string option"

definition assign_distro :: "string option \<Rightarrow> ('z frame_ext, unit) action" where
  "assign_distro v = (\<lambda>w. (Inr (), w\<lparr>distro := v\<rparr>))"

definition read_distro :: "('z frame_ext, string option) action" where
  "read_distro = (\<lambda>w. (Inr (distro w), w))"

definition detect_distro ::
  "filesystem \<Rightarrow> ext \<Rightarrow> guest \<Rightarrow> ('z frame_ext, string option) action" where
  "detect_distro os x g =
     bnd (assign_distro None) (\<lambda>u.
     bnd (try_except
            (bnd (read_self conn) (\<lambda>c.
             bnd (read_self location) (\<lambda>loc.
             bnd (lift (is_url os c loc)) (\<lambda>isurl.
             if isurl then
               try_finally_local (get_fetcher x g None)
                 (\<lambda>fetcher.
                    bnd (call (Call_prepareLocation fetcher)
                           (\<lambda>h. prepareLocation x h fetcher)) (\<lambda>u.
                    bnd (get_store x g fetcher) (\<lambda>st.
                    bnd (call (Call_get_osdict_info st) (\<lambda>h. get_osdict_info x h st)) (\<lambda>d.
                    assign_distro d))))
                 (cleanup_local x)
             else if is_remote c then
               logging DEBUG (''Can'' @ [CHR 0x27] @ ''t detect distro for media on '' @
                              ''remote connection.'')
             else
               bnd (call (Call_lookup_os_by_media loc)
                      (\<lambda>h. lookup_os_by_media x h loc)) (\<lambda>d.
               assign_distro d)))))
            isinstance_Exception
            (\<lambda>e. logging DEBUG ''Error attempting to detect distro.'')) (\<lambda>u.
     bnd read_distro (\<lambda>d.
     bnd (logging DEBUG (''installer.detect_distro returned='' @ str_val d)) (\<lambda>u.
     ret d))))"



section \<open>The node device probe\<close>

text \<open>
  \<^verbatim>\<open>debug-nodedev.py\<close>. Standard output is the list of the texts printed, one per call of
  \<^verbatim>\<open>print\<close>. The connection and the lookup are collaborators.
\<close>

record nodedev =
  name :: string

record probe_env =
  getConnection :: "string \<Rightarrow> exn + conn"
  lookupNodedevFromString :: "conn \<Rightarrow> string \<Rightarrow> exn + nodedev"

text \<open>The \<^verbatim>\<open>for\<close> loop of \<^verbatim>\<open>debugnodedev\<close>.\<close>

fun debugnodedev_loop ::
  "probe_env \<Rightarrow> conn \<Rightarrow> string list \<Rightarrow> string list \<Rightarrow> (exn + unit) \<times> string list" where
  "debugnodedev_loop pe c [] out = (Inr (), out)"
| "debugnodedev_loop pe c (hostdev # rest) out =
     (case lookupNodedevFromString pe c hostdev of
        Inr nd \<Rightarrow>
          debugnodedev_loop pe c rest
            (out @ [''OK   - hostdev '' @ hostdev @ '' maps to '' @ name nd])
      | Inl err \<Rightarrow>
          if isinstance_ValueError err then
            debugnodedev_loop pe c rest
              (out @ [''FAIL - failed to query hostdev '' @ hostdev @ '' - '' @ str_exn err])
          else (Inl err, out))"

definition banner :: string where
  "banner = [CHR 0x0A] @ ''Probing devices now:'' @ [CHR 0x0A]"

definition debugnodedev ::
  "probe_env \<Rightarrow> string list \<Rightarrow> string list \<Rightarrow> (exn + unit) \<times> string list" where
  "debugnodedev pe hostdevs out =
     (case getConnection pe ''qemu:///system'' of
        Inl e \<Rightarrow> (Inl e, out)
      | Inr c \<Rightarrow> debugnodedev_loop pe c hostdevs (out @ [banner]))"

section \<open>Notions the properties are stated with\<close>

subsection \<open>Histories\<close>

text \<open>The events a run added to the history: those after the ones present at its start.\<close>

definition emitted :: "'z world_scheme \<Rightarrow> 'y world_scheme \<Rightarrow> event list" where
  "emitted w w' = drop (length (history w)) (history w')"

text \<open>
  Every \<^verbatim>\<open>prepareLocation\<close> of a fetcher in the list is followed, later in the list, by a
  \<^verbatim>\<open>cleanupLocation\<close> of the same fetcher.
\<close>

fun released :: "event list \<Rightarrow> bool" where
  "released [] = True"
| "released (e # es) =
     ((case e of Call_prepareLocation f \<Rightarrow> Call_cleanupLocation f \<in> set es | _ \<Rightarrow> True)
      \<and> released es)"


text \<open>
  A necessary condition for a message to say that something is unsupported, not supported
  or no longer supported.
\<close>

definition mentions_unsupported :: "string \<Rightarrow> bool" where
  "mentions_unsupported msg = sublist ''supported'' msg"

subsection \<open>The probe's output\<close>

text \<open>The line the probe prints for one item, and whether the loop goes on after it.\<close>

definition probe_line :: "probe_env \<Rightarrow> conn \<Rightarrow> string \<Rightarrow> string" where
  "probe_line pe c hostdev =
     (case lookupNodedevFromString pe c hostdev of
        Inr nd \<Rightarrow> ''OK   - hostdev '' @ hostdev @ '' maps to '' @ name nd
      | Inl err \<Rightarrow> ''FAIL - failed to query hostdev '' @ hostdev @ '' - '' @ str_exn err)"

definition survives :: "probe_env \<Rightarrow> conn \<Rightarrow> string \<Rightarrow> bool" where
  "survives pe c hostdev =
     (case lookupNodedevFromString pe c hostdev of
        Inr nd \<Rightarrow> True
      | Inl err \<Rightarrow> isinstance_ValueError err)"

subsection \<open>Reasoning about histories and locals\<close>

text \<open>Whatever the start state, the action appends events that satisfy \<open>P\<close>.\<close>

definition emits :: "(event list \<Rightarrow> bool) \<Rightarrow> ('z, 'a) action \<Rightarrow> bool" where
  "emits P m = (\<forall>w. \<exists>evs. history (snd (m w)) = history w @ evs \<and> P evs)"

definition closed :: "(event list \<Rightarrow> bool) \<Rightarrow> bool" where
  "closed P = (P [] \<and> (\<forall>a b. P a \<longrightarrow> P b \<longrightarrow> P (a @ b)))"

text \<open>No \<^verbatim>\<open>prepareLocation\<close> at all; none except of the fetcher \<open>f\<close>.\<close>

definition quiet :: "event list \<Rightarrow> bool" where
  "quiet evs = (\<forall>f. Call_prepareLocation f \<notin> set evs)"

definition about :: "fetcher \<Rightarrow> event list \<Rightarrow> bool" where
  "about f evs = (\<forall>f'. Call_prepareLocation f' \<in> set evs \<longrightarrow> f' = f)"



text \<open>Whatever the start state, an exception the action raises is an instance of Exception.\<close>

definition raises_only_Exception :: "('z, 'a) action \<Rightarrow> bool" where
  "raises_only_Exception m = (\<forall>w e. fst (m w) = Inl e \<longrightarrow> isinstance_Exception e)"

section \<open>Concrete scenarios\<close>

definition local_conn :: conn where
  "local_conn = \<lparr>is_remote = False\<rparr>"

definition remote_conn :: conn where
  "remote_conn = \<lparr>is_remote = True\<rparr>"

text \<open>A host with an install tree mounted at one path and an optical drive at another.\<close>

definition example_fs :: filesystem where
  "example_fs p =
     (if p = ''/mnt/tree'' then Some Directory
      else if p = ''/dev/sr0'' then Some Other
      else None)"

definition example_installer :: "conn \<Rightarrow> string option \<Rightarrow> installer" where
  "example_installer c loc =
     \<lparr>conn = c, location = loc, cdrom = False, livecd = False,
      cached_fetcher = None, cached_store = None, cdrom_path = None,
      tmpfiles = [], tmpvols = [], install_kernel = None, install_initrd = None,
      extraargs = [], initrd_injections = []\<rparr>"

definition example_guest :: guest where
  "example_guest = \<lparr>guest_conn = local_conn, guest_type = ''kvm''\<rparr>"

text \<open>Collaborators that all succeed.\<close>

definition example_ext :: ext where
  "example_ext =
     \<lparr>ensure_meter = (\<lambda>m. case m of None \<Rightarrow> 0 | Some n \<Rightarrow> n),
      make_scratchdir = (\<lambda>h g. Inr ''/var/lib/libvirt/boot''),
      fetcherForURI = (\<lambda>h loc dir m. Inr \<lparr>fetcher_uri = loc, scratchdir = dir, meter = m\<rparr>),
      prepareLocation = (\<lambda>h f. Inr ()),
      cleanupLocation = (\<lambda>h f. Inr ()),
      getDistroStore = (\<lambda>h g f. Inr (Store ''fedora'')),
      acquireBootISO = (\<lambda>h st. Inr ''/var/lib/libvirt/boot/boot.iso''),
      acquireKernel = (\<lambda>h st. Inr (''/var/lib/libvirt/boot/vmlinuz'',
                                     Some ''/var/lib/libvirt/boot/initrd.img'', None)),
      perform_initrd_injections = (\<lambda>h initrd inj dir. Inr ()),
      get_system_scratchdir = (\<lambda>h t. Inr ''/var/lib/libvirt/boot''),
      upload_kernel_initrd = (\<lambda>h c dir sysdir m kernel initrd. Inr (kernel, initrd, [])),
      get_osdict_info = (\<lambda>h st. Inr (Some ''fedora28'')),
      lookup_os_by_media = (\<lambda>h loc. Inr None),
      DeviceDisk_validate = (\<lambda>h c v. Inr v)\<rparr>"

text \<open>The same, except that one collaborator raises.\<close>

definition ext_prepare_fails :: ext where
  "ext_prepare_fails =
     example_ext\<lparr>prepareLocation := (\<lambda>h f. Inl (Exn OSError ''Network is unreachable''))\<rparr>"



definition ext_device_fails :: ext where
  "ext_device_fails =
     example_ext\<lparr>DeviceDisk_validate := (\<lambda>h c v. Inl (Exn ValueError
        ''Must specify storage creation parameters for non-existent path.''))\<rparr>"

definition web_fetcher :: fetcher where
  "web_fetcher =
     \<lparr>fetcher_uri = Some ''http://example.org/tree'',
      scratchdir = ''/var/lib/libvirt/boot'', meter = 0\<rparr>"

definition stale_fetcher :: fetcher where
  "stale_fetcher =
     \<lparr>fetcher_uri = Some ''http://example.org/old'', scratchdir = ''/tmp/old'', meter = 7\<rparr>"

definition web_world :: world where
  "web_world =
     \<lparr>self = example_installer local_conn (Some ''http://example.org/tree''), history = []\<rparr>"

definition web_frame :: frame where
  "web_frame =
     \<lparr>self = example_installer local_conn (Some ''http://example.org/tree''), history = [],
      distro = None\<rparr>"


definition stale_world :: world where
  "stale_world =
     \<lparr>self = (example_installer local_conn (Some ''http://example.org/tree''))
               \<lparr>cached_fetcher := Some stale_fetcher, cached_store := Some (Store ''old'')\<rparr>,
      history = []\<rparr>"

definition nfs_world :: world where
  "nfs_world = \<lparr>self = example_installer local_conn None, history = []\<rparr>"

text \<open>A probe whose lookup fails with a value error for one name and otherwise for another.\<close>

definition example_probe :: probe_env where
  "example_probe =
     \<lparr>getConnection = (\<lambda>uri. Inr local_conn),
      lookupNodedevFromString = (\<lambda>c hostdev.
        if hostdev = ''bogus'' then Inl (Exn ValueError ''Did not find a matching node device'')
        else if hostdev = ''broken'' then Inl (Exn RuntimeError ''connection lost'')
        else Inr \<lparr>name = hostdev\<rparr>)\<rparr>"

section \<open>Unfolding\<close>

text \<open>The definitions that evaluating a classification or a run unfolds, collected.\<close>

lemmas is_url_defs = is_url_def os_path_exists_def os_path_isdir_def startswith_def

lemmas classifier_defs = get_media_type_def and_then_def truthy_def is_url_defs

lemmas core_defs = ret_def throw_def lift_def bnd_def call_def logging_def read_self_def
  update_self_def try_except_def isinstance_Exception_def

lemmas finally_defs = try_finally_def try_finally_local_def cleanup_local_def
  assign_distro_def read_distro_def

section \<open>The media classifier: properties\<close>

text \<open>
  C1, as stated: for every combination of inputs the classifier returns the media type
  that the decision order of the specification gives, the URL classification being the
  one the specification describes in its second rule. This fails: on a local connection,
  for a location that is an existing directory and with the cdrom flag unset, the
  specification's rules give the directory type, the classifier the location-URL type.
\<close>

theorem get_media_type_spec_counterexample:
  "get_media_type example_fs (example_installer local_conn (Some ''/mnt/tree''))
     = MEDIA_LOCATION_URL
   \<and> spec_get_media_type example_fs (example_installer local_conn (Some ''/mnt/tree''))
     = MEDIA_LOCATION_DIR"
  by (simp add: get_media_type_def spec_get_media_type_def spec_media_type_def spec_is_url_def
      example_installer_def local_conn_def example_fs_def and_then_def truthy_def
      is_url_def os_path_exists_def os_path_isdir_def has_scheme_def)

text \<open>
  C1, amended: the classifier returns exactly one of the six media types, the one that the
  decision order of the specification gives when "classified as a URL" in its second rule
  is the classifier's own predicate \<^verbatim>\<open>_is_url\<close>; in particular, when none of the first three
  rules matches and the location is a directory, it returns the directory type.
\<close>

theorem get_media_type_precedence:
  "get_media_type os s =
     spec_media_type (truthy (location s)) (cdrom s)
       (and_then (location s) (\<lambda>u. is_url os (conn s) (Some u) = Inr True))
       (and_then (location s) (os_path_isdir os))
   \<and> get_media_type os s \<in> set [MEDIA_LOCATION_DIR, MEDIA_LOCATION_CDROM, MEDIA_LOCATION_URL,
         MEDIA_CDROM_PATH, MEDIA_CDROM_URL, MEDIA_CDROM_IMPLIED]
   \<and> (\<not> (cdrom s \<and> \<not> truthy (location s))
       \<and> \<not> and_then (location s) (\<lambda>u. is_url os (conn s) (Some u) = Inr True)
       \<and> \<not> cdrom s
       \<and> and_then (location s) (os_path_isdir os)
      \<longrightarrow> get_media_type os s = MEDIA_LOCATION_DIR)"
  by (cases "get_media_type os s")
     (auto simp: get_media_type_def spec_media_type_def and_then_def truthy_def
           split: option.splits if_splits)

text \<open>C1: the amended statement at a directory on a remote connection, where its fourth rule applies.\<close>

theorem get_media_type_precedence_witness:
  "\<not> (cdrom (example_installer remote_conn (Some ''/mnt/tree''))
       \<and> \<not> truthy (location (example_installer remote_conn (Some ''/mnt/tree''))))
   \<and> \<not> and_then (location (example_installer remote_conn (Some ''/mnt/tree'')))
         (\<lambda>u. is_url example_fs (conn (example_installer remote_conn (Some ''/mnt/tree'')))
                 (Some u) = Inr True)
   \<and> \<not> cdrom (example_installer remote_conn (Some ''/mnt/tree''))
   \<and> and_then (location (example_installer remote_conn (Some ''/mnt/tree'')))
        (os_path_isdir example_fs)
   \<and> get_media_type example_fs (example_installer remote_conn (Some ''/mnt/tree''))
       = MEDIA_LOCATION_DIR"
  using get_media_type_precedence
    [of example_fs "example_installer remote_conn (Some ''/mnt/tree'')"]
  by (simp add: remote_conn_def example_fs_def example_installer_def classifier_defs)

text \<open>
  C2, as stated: a string is classified as a URL exactly when the connection is remote, or
  the connection is local and the path does not exist or the string has a scheme prefix.
  This fails: a device path on a remote connection and a path that does not exist on a
  local connection are both not classified as URLs.
\<close>

theorem is_url_spec_counterexample:
  "is_url example_fs remote_conn (Some ''/dev/sr0'') = Inr False
   \<and> spec_is_url example_fs remote_conn ''/dev/sr0'' = True
   \<and> is_url example_fs local_conn (Some ''/no/such/path'') = Inr False
   \<and> spec_is_url example_fs local_conn ''/no/such/path'' = True"
  by (simp add: is_url_def spec_is_url_def remote_conn_def local_conn_def example_fs_def
      os_path_exists_def os_path_isdir_def has_scheme_def)

text \<open>
  C2, amended: on a remote connection a string is classified as a URL exactly when it
  starts with http://, https:// or ftp://; on a local connection a path that exists is
  classified as a URL exactly when it is a directory, and a path that does not exist
  exactly when it starts with one of the three scheme prefixes.
\<close>

theorem is_url_classification:
  "is_url os c (Some u) =
     Inr (if is_remote c then has_scheme u
          else if os_path_exists os u then os_path_isdir os u
          else has_scheme u)"
  by (simp add: is_url_def has_scheme_def)

text \<open>C2: the amended statement at an existing directory, at a device node and at a scheme prefix.\<close>

theorem is_url_classification_witness:
  "is_url example_fs local_conn (Some ''/mnt/tree'') = Inr True
   \<and> is_url example_fs local_conn (Some ''/dev/sr0'') = Inr False
   \<and> is_url example_fs remote_conn (Some ''/mnt/tree'') = Inr False
   \<and> is_url example_fs remote_conn (Some ''ftp://example.org/tree'') = Inr True"
  using is_url_classification [of example_fs local_conn "''/mnt/tree''"]
    is_url_classification [of example_fs local_conn "''/dev/sr0''"]
    is_url_classification [of example_fs remote_conn "''/mnt/tree''"]
    is_url_classification [of example_fs remote_conn "''ftp://example.org/tree''"]
  by (simp add: local_conn_def remote_conn_def example_fs_def os_path_exists_def os_path_isdir_def has_scheme_def)

text \<open>
  C3: on a local connection a location that is an existing directory is classified as a
  URL, so the classifier returns location-URL, or cdrom-URL when the cdrom flag is set;
  the directory type is returned exactly when the connection is remote, the cdrom flag is
  unset and the location is a directory of the local filesystem without a scheme prefix.
\<close>

theorem local_directory_is_url:
  "(\<not> is_remote (conn s) \<and> location s = Some u \<and> os_path_isdir os u \<longrightarrow>
      is_url os (conn s) (Some u) = Inr True
      \<and> get_media_type os s = (if cdrom s then MEDIA_CDROM_URL else MEDIA_LOCATION_URL))
   \<and> (get_media_type os s = MEDIA_LOCATION_DIR \<longleftrightarrow>
        is_remote (conn s) \<and> \<not> cdrom s
        \<and> and_then (location s) (\<lambda>u. os_path_isdir os u \<and> \<not> has_scheme u))"
  by (auto simp: get_media_type_def and_then_def truthy_def is_url_def os_path_isdir_def
        os_path_exists_def has_scheme_def split: option.splits if_splits)

text \<open>C3: the same directory on a local and on a remote connection.\<close>

theorem local_directory_is_url_witness:
  "\<not> is_remote (conn (example_installer local_conn (Some ''/mnt/tree'')))
   \<and> location (example_installer local_conn (Some ''/mnt/tree'')) = Some ''/mnt/tree''
   \<and> os_path_isdir example_fs ''/mnt/tree''
   \<and> is_url example_fs (conn (example_installer local_conn (Some ''/mnt/tree'')))
        (Some ''/mnt/tree'') = Inr True
   \<and> get_media_type example_fs (example_installer local_conn (Some ''/mnt/tree''))
        = MEDIA_LOCATION_URL
   \<and> get_media_type example_fs (example_installer remote_conn (Some ''/mnt/tree''))
        = MEDIA_LOCATION_DIR
   \<and> is_remote (conn (example_installer remote_conn (Some ''/mnt/tree'')))"
  using local_directory_is_url
    [of "example_installer local_conn (Some ''/mnt/tree'')" "''/mnt/tree''" example_fs]
    local_directory_is_url
    [of "example_installer remote_conn (Some ''/mnt/tree'')" "''/mnt/tree''" example_fs]
  by (simp add: local_conn_def remote_conn_def example_fs_def example_installer_def
      classifier_defs has_scheme_def)

text \<open>
  C8: \<^verbatim>\<open>get_bootdev\<close> returns "cdrom" whenever \<^verbatim>\<open>isinstall\<close> is true; when it is false it
  returns "cdrom" exactly when the media type is not one of the two URL types, the cdrom
  flag is set and \<^verbatim>\<open>livecd\<close> is true, and "hd" otherwise.
\<close>

theorem get_bootdev_cases:
  "get_bootdev os s True g = ''cdrom''
   \<and> get_bootdev os s False g =
       (if get_media_type os s \<noteq> MEDIA_LOCATION_URL \<and> get_media_type os s \<noteq> MEDIA_CDROM_URL
           \<and> cdrom s \<and> livecd s
        then ''cdrom'' else ''hd'')"
  by (cases "get_media_type os s") (simp_all add: get_bootdev_def Let_def)

text \<open>C8: a local optical drive with and without live-CD mode, with and without an install phase, and a URL.\<close>

theorem get_bootdev_cases_witness:
  "get_bootdev example_fs
     ((example_installer local_conn (Some ''/dev/sr0''))\<lparr>cdrom := True, livecd := True\<rparr>)
     False example_guest = ''cdrom''
   \<and> get_bootdev example_fs
     ((example_installer local_conn (Some ''/dev/sr0''))\<lparr>cdrom := True, livecd := False\<rparr>)
     False example_guest = ''hd''
   \<and> get_bootdev example_fs
     ((example_installer local_conn (Some ''/dev/sr0''))\<lparr>cdrom := True, livecd := False\<rparr>)
     True example_guest = ''cdrom''
   \<and> get_bootdev example_fs
     ((example_installer local_conn (Some ''http://example.org/tree''))
        \<lparr>cdrom := True, livecd := True\<rparr>)
     False example_guest = ''hd''"
  using get_bootdev_cases [of example_fs
      "(example_installer local_conn (Some ''/dev/sr0''))\<lparr>cdrom := True, livecd := True\<rparr>"
      example_guest]
    get_bootdev_cases [of example_fs
      "(example_installer local_conn (Some ''/dev/sr0''))\<lparr>cdrom := True, livecd := False\<rparr>"
      example_guest]
    get_bootdev_cases [of example_fs
      "(example_installer local_conn (Some ''http://example.org/tree''))
         \<lparr>cdrom := True, livecd := True\<rparr>"
      example_guest]
  by (simp add: local_conn_def example_fs_def example_installer_def classifier_defs)

text \<open>
  C9: \<^verbatim>\<open>needs_cdrom\<close> is true if and only if the media type is cdrom-path, location-cdrom
  or cdrom-URL.
\<close>

theorem needs_cdrom_iff:
  "needs_cdrom os s \<longleftrightarrow>
     get_media_type os s = MEDIA_CDROM_PATH \<or> get_media_type os s = MEDIA_LOCATION_CDROM
     \<or> get_media_type os s = MEDIA_CDROM_URL"
  by (auto simp: needs_cdrom_def)

text \<open>C9: an optical drive needs a cdrom device, an install tree does not.\<close>

theorem needs_cdrom_iff_witness:
  "needs_cdrom example_fs (example_installer local_conn (Some ''/dev/sr0''))
   \<and> \<not> needs_cdrom example_fs (example_installer local_conn (Some ''/mnt/tree''))"
  using needs_cdrom_iff [of example_fs "example_installer local_conn (Some ''/dev/sr0'')"]
    needs_cdrom_iff [of example_fs "example_installer local_conn (Some ''/mnt/tree'')"]
  by (simp add: local_conn_def example_fs_def example_installer_def classifier_defs)

section \<open>Scoped acquisition of the fetch location\<close>

subsection \<open>Rules for the events an action appends\<close>

lemma emits_ret: "P [] \<Longrightarrow> emits P (ret v)"
  by (simp add: emits_def ret_def)

lemma emits_throw: "P [] \<Longrightarrow> emits P (throw e)"
  by (simp add: emits_def throw_def)

lemma emits_lift: "P [] \<Longrightarrow> emits P (lift r)"
  by (simp add: emits_def lift_def)

lemma emits_read_self: "P [] \<Longrightarrow> emits P (read_self f)"
  by (simp add: emits_def read_self_def)

lemma emits_update_self: "P [] \<Longrightarrow> emits P (update_self f)"
  by (simp add: emits_def update_self_def)

lemma emits_assign_distro: "P [] \<Longrightarrow> emits P (assign_distro v)"
  by (simp add: emits_def assign_distro_def)

lemma emits_read_distro: "P [] \<Longrightarrow> emits P read_distro"
  by (simp add: emits_def read_distro_def)

lemma emits_call: "P [ev] \<Longrightarrow> emits P (call ev f)"
  by (simp add: emits_def call_def)

lemma emits_logging: "P [Log lvl msg] \<Longrightarrow> emits P (logging lvl msg)"
  by (simp add: emits_def logging_def)

lemma emits_weaken: "emits P m \<Longrightarrow> (\<And>a. P a \<Longrightarrow> Q a) \<Longrightarrow> emits Q m"
  by (fastforce simp: emits_def)

lemma emits_bnd:
  assumes m: "emits P m" and f: "\<And>v. emits Q (f v)"
    and stop: "\<And>a. P a \<Longrightarrow> R a" and go: "\<And>a b. P a \<Longrightarrow> Q b \<Longrightarrow> R (a @ b)"
  shows "emits R (bnd m f)"
  unfolding emits_def
proof
  fix w
  obtain r w1 where mw: "m w = (r, w1)" by (cases "m w")
  from m obtain a where a: "history w1 = history w @ a" "P a"
    using mw unfolding emits_def by (metis snd_conv)
  show "\<exists>evs. history (snd (bnd m f w)) = history w @ evs \<and> R evs"
  proof (cases r)
    case (Inl e)
    then have "bnd m f w = (Inl e, w1)" by (simp add: bnd_def mw)
    with a stop show ?thesis by auto
  next
    case (Inr v)
    then have eq: "bnd m f w = f v w1" by (simp add: bnd_def mw)
    from f obtain b where b: "history (snd (f v w1)) = history w1 @ b" "Q b"
      unfolding emits_def by blast
    with a go eq show ?thesis by auto
  qed
qed

lemma emits_try_except:
  assumes m: "emits P m" and h: "\<And>e. emits Q (h e)"
    and stop: "\<And>a. P a \<Longrightarrow> R a" and go: "\<And>a b. P a \<Longrightarrow> Q b \<Longrightarrow> R (a @ b)"
  shows "emits R (try_except m c h)"
  unfolding emits_def
proof
  fix w
  obtain r w1 where mw: "m w = (r, w1)" by (cases "m w")
  from m obtain a where a: "history w1 = history w @ a" "P a"
    using mw unfolding emits_def by (metis snd_conv)
  show "\<exists>evs. history (snd (try_except m c h w)) = history w @ evs \<and> R evs"
  proof (cases "\<exists>e. r = Inl e \<and> c e")
    case True
    then obtain e where "r = Inl e" "c e" by blast
    then have eq: "try_except m c h w = h e w1" by (simp add: try_except_def mw)
    from h obtain b where b: "history (snd (h e w1)) = history w1 @ b" "Q b"
      unfolding emits_def by blast
    with a go eq show ?thesis by auto
  next
    case False
    then have "try_except m c h w = (r, w1)"
      by (cases r) (auto simp: try_except_def mw)
    with a stop show ?thesis by auto
  qed
qed

lemma emits_try_finally:
  assumes m: "emits P m" and fin: "emits Q fin"
    and go: "\<And>a b. P a \<Longrightarrow> Q b \<Longrightarrow> R (a @ b)"
  shows "emits R (try_finally m fin)"
  unfolding emits_def
proof
  fix w
  obtain r w1 where mw: "m w = (r, w1)" by (cases "m w")
  from m obtain a where a: "history w1 = history w @ a" "P a"
    using mw unfolding emits_def by (metis snd_conv)
  obtain r2 w2 where fw: "fin w1 = (r2, w2)" by (cases "fin w1")
  from fin obtain b where b: "history w2 = history w1 @ b" "Q b"
    using fw unfolding emits_def by (metis snd_conv)
  have "snd (try_finally m fin w) = w2"
    by (cases r2) (simp_all add: try_finally_def mw fw)
  with a b go show "\<exists>evs. history (snd (try_finally m fin w)) = history w @ evs \<and> R evs"
    by auto
qed

lemma emits_try_finally_local:
  assumes m: "emits P m" and body: "\<And>v. emits (Q v) (body v)"
    and fin0: "emits F0 (fin None)" and fin1: "\<And>v. emits (F v) (fin (Some v))"
    and unbound: "\<And>a c. P a \<Longrightarrow> F0 c \<Longrightarrow> R (a @ c)"
    and bound: "\<And>v a b c. P a \<Longrightarrow> Q v b \<Longrightarrow> F v c \<Longrightarrow> R (a @ b @ c)"
  shows "emits R (try_finally_local m body fin)"
  unfolding emits_def
proof
  fix w
  obtain r w1 where mw: "m w = (r, w1)" by (cases "m w")
  from m obtain a where a: "history w1 = history w @ a" "P a"
    using mw unfolding emits_def by (metis snd_conv)
  show "\<exists>evs. history (snd (try_finally_local m body fin w)) = history w @ evs \<and> R evs"
  proof (cases r)
    case (Inl e)
    then have eq: "snd (try_finally_local m body fin w) = snd (fin None w1)"
      by (simp add: try_finally_local_def try_finally_def throw_def mw
          split: prod.split sum.split)
    from fin0 obtain c where c: "history (snd (fin None w1)) = history w1 @ c" "F0 c"
      unfolding emits_def by blast
    have "history (snd (try_finally_local m body fin w)) = history w @ (a @ c)"
      using a c eq by simp
    moreover have "R (a @ c)"
      using a c unbound by blast
    ultimately show ?thesis by blast
  next
    case (Inr v)
    then have eq: "try_finally_local m body fin w = try_finally (body v) (fin (Some v)) w1"
      by (simp add: try_finally_local_def mw)
    have "emits (\<lambda>d. \<exists>b c. d = b @ c \<and> Q v b \<and> F v c) (try_finally (body v) (fin (Some v)))"
      by (rule emits_try_finally [OF body fin1]) blast
    then obtain b c where bc:
      "history (snd (try_finally (body v) (fin (Some v)) w1)) = history w1 @ b @ c" "Q v b" "F v c"
      unfolding emits_def by blast
    have "history (snd (try_finally_local m body fin w)) = history w @ (a @ b @ c)"
      using a bc eq by simp
    moreover have "R (a @ b @ c)"
      using a bc bound by blast
    ultimately show ?thesis by blast
  qed
qed

lemma emits_bnd_closed:
  "closed P \<Longrightarrow> emits P m \<Longrightarrow> (\<And>v. emits P (f v)) \<Longrightarrow> emits P (bnd m f)"
  by (rule emits_bnd [where P = P and Q = P]) (auto simp: closed_def)

lemma emits_try_except_closed:
  "closed P \<Longrightarrow> emits P m \<Longrightarrow> (\<And>e. emits P (h e)) \<Longrightarrow> emits P (try_except m c h)"
  by (rule emits_try_except [where P = P and Q = P]) (auto simp: closed_def)

lemma emits_if:
  "(c \<Longrightarrow> emits P a) \<Longrightarrow> (\<not> c \<Longrightarrow> emits P b) \<Longrightarrow> emits P (if c then a else b)"
  by simp

lemma emits_case_option:
  "emits P a \<Longrightarrow> (\<And>v. emits P (b v)) \<Longrightarrow> emits P (case c of None \<Rightarrow> a | Some v \<Rightarrow> b v)"
  by (cases c) simp_all

lemma emits_case_prod:
  "(\<And>a b. emits P (f a b)) \<Longrightarrow> emits P (case p of (a, b) \<Rightarrow> f a b)"
  by (cases p) simp

lemma closed_quiet: "closed quiet"
  by (auto simp: closed_def quiet_def)

lemma closed_about: "closed (about f)"
  by (auto simp: closed_def about_def)

lemma quiet_about: "quiet a \<Longrightarrow> about f a"
  by (simp add: quiet_def about_def)

lemma released_append: "released a \<Longrightarrow> released b \<Longrightarrow> released (a @ b)"
  by (induction a) (auto split: event.splits)

lemma closed_released: "closed released"
  by (simp add: closed_def released_append)

lemma quiet_released: "quiet a \<Longrightarrow> released a"
  by (induction a) (auto simp: quiet_def split: event.splits)

lemma about_released: "about f a \<Longrightarrow> released (a @ [Call_cleanupLocation f])"
  by (induction a) (auto simp: about_def split: event.splits)

lemmas emits_intros = emits_ret emits_throw emits_lift emits_read_self emits_update_self
  emits_assign_distro emits_read_distro emits_call emits_logging emits_if emits_case_option
  emits_case_prod

subsection \<open>Operations that never prepare a location\<close>

lemma get_fetcher_quiet: "emits quiet (get_fetcher x g m)"
  unfolding get_fetcher_def
  by (intro emits_bnd_closed closed_quiet emits_intros) (simp_all add: quiet_def)

lemma get_store_quiet: "emits quiet (get_store x g f)"
  unfolding get_store_def
  by (intro emits_bnd_closed closed_quiet emits_intros) (simp_all add: quiet_def)

lemma prepare_cdrom_url_quiet: "emits quiet (prepare_cdrom_url x g f)"
  unfolding prepare_cdrom_url_def
  by (intro emits_bnd_closed closed_quiet emits_intros get_store_quiet) (simp_all add: quiet_def)

lemma prepare_kernel_url_quiet: "emits quiet (prepare_kernel_url x g f)"
  unfolding prepare_kernel_url_def
  by (intro emits_bnd_closed closed_quiet emits_intros get_store_quiet) (simp_all add: quiet_def)


subsection \<open>The three operations that do\<close>

lemma cleanup_emits: "emits (\<lambda>c. c = [Call_cleanupLocation f]) (cleanup_local x (Some f))"
  by (simp add: cleanup_local_def emits_call)

lemma cleanup_unbound_emits: "emits (\<lambda>c. c = []) (cleanup_local x None)"
  by (simp add: cleanup_local_def emits_throw)

lemma prepare_released: "emits released (prepare os x g m)"
proof -
  have body: "emits (about f)
      (bnd (try_except
              (call (Call_prepareLocation f) (\<lambda>h. prepareLocation x h f))
              isinstance_ValueError
              (\<lambda>e. bnd (logging DEBUG ''Error preparing install location'') (\<lambda>u.
                    throw (Exn ValueError (''Invalid install location: '' @ str_exn e)))))
           (\<lambda>u. if mt = MEDIA_CDROM_URL
                 then bnd (prepare_cdrom_url x g f) (\<lambda>media. ret (Some media))
                 else bnd (prepare_kernel_url x g f) (\<lambda>u. ret cp)))" for f mt cp
    by (intro emits_bnd_closed emits_try_except_closed closed_about emits_intros
          emits_weaken [OF prepare_cdrom_url_quiet quiet_about]
          emits_weaken [OF prepare_kernel_url_quiet quiet_about])
       (simp_all add: about_def)
  have block: "emits released
      (try_finally
         (bnd (try_except
                 (call (Call_prepareLocation f) (\<lambda>h. prepareLocation x h f))
                 isinstance_ValueError
                 (\<lambda>e. bnd (logging DEBUG ''Error preparing install location'') (\<lambda>u.
                       throw (Exn ValueError (''Invalid install location: '' @ str_exn e)))))
              (\<lambda>u. if mt = MEDIA_CDROM_URL
                    then bnd (prepare_cdrom_url x g f) (\<lambda>media. ret (Some media))
                    else bnd (prepare_kernel_url x g f) (\<lambda>u. ret cp)))
         (call (Call_cleanupLocation f) (\<lambda>h. cleanupLocation x h f)))" for f mt cp
    by (rule emits_try_finally [OF body, where Q = "\<lambda>c. c = [Call_cleanupLocation f]"])
       (simp_all add: emits_call about_released)
  have fetch: "emits released
      (bnd (get_fetcher x g m) (\<lambda>f.
         try_finally
           (bnd (try_except
                   (call (Call_prepareLocation f) (\<lambda>h. prepareLocation x h f))
                   isinstance_ValueError
                   (\<lambda>e. bnd (logging DEBUG ''Error preparing install location'') (\<lambda>u.
                         throw (Exn ValueError (''Invalid install location: '' @ str_exn e)))))
                (\<lambda>u. if mt = MEDIA_CDROM_URL
                      then bnd (prepare_cdrom_url x g f) (\<lambda>media. ret (Some media))
                      else bnd (prepare_kernel_url x g f) (\<lambda>u. ret cp)))
           (call (Call_cleanupLocation f) (\<lambda>h. cleanupLocation x h f))))" for mt cp
    by (rule emits_bnd [OF get_fetcher_quiet block])
       (simp_all add: quiet_released released_append)
  show ?thesis
    unfolding prepare_def
    by (intro emits_bnd_closed closed_released emits_intros fetch) simp_all
qed

lemma check_location_released: "emits released (check_location os x g)"
proof -
  have body: "emits (about f)
      (bnd (call (Call_prepareLocation f) (\<lambda>h. prepareLocation x h f)) (\<lambda>u.
       bnd (get_store x g f) (\<lambda>ignore. ret ())))" for f
    by (intro emits_bnd_closed closed_about emits_intros
          emits_weaken [OF get_store_quiet quiet_about])
       (simp_all add: about_def)
  have block: "emits released
      (try_finally_local (get_fetcher x g None)
         (\<lambda>f. bnd (call (Call_prepareLocation f) (\<lambda>h. prepareLocation x h f)) (\<lambda>u.
               bnd (get_store x g f) (\<lambda>ignore. ret ())))
         (cleanup_local x))"
    by (rule emits_try_finally_local
          [OF get_fetcher_quiet body cleanup_unbound_emits cleanup_emits])
       (simp_all add: quiet_released released_append about_released)
  show ?thesis
    unfolding check_location_def
    by (intro emits_bnd_closed closed_released emits_intros block) simp_all
qed

lemma detect_distro_released: "emits released (detect_distro os x g)"
proof -
  have body: "emits (about f)
      (bnd (call (Call_prepareLocation f) (\<lambda>h. prepareLocation x h f)) (\<lambda>u.
       bnd (get_store x g f) (\<lambda>st.
       bnd (call (Call_get_osdict_info st) (\<lambda>h. get_osdict_info x h st)) (\<lambda>d.
       assign_distro d))))" for f
    by (intro emits_bnd_closed closed_about emits_intros
          emits_weaken [OF get_store_quiet quiet_about])
       (simp_all add: about_def)
  have block: "emits released
      (try_finally_local (get_fetcher x g None)
         (\<lambda>f. bnd (call (Call_prepareLocation f) (\<lambda>h. prepareLocation x h f)) (\<lambda>u.
               bnd (get_store x g f) (\<lambda>st.
               bnd (call (Call_get_osdict_info st) (\<lambda>h. get_osdict_info x h st)) (\<lambda>d.
               assign_distro d))))
         (cleanup_local x))"
    by (rule emits_try_finally_local
          [OF get_fetcher_quiet body cleanup_unbound_emits cleanup_emits])
       (simp_all add: quiet_released released_append about_released)
  show ?thesis
    unfolding detect_distro_def
    by (intro emits_bnd_closed emits_try_except_closed closed_released emits_intros block)
       simp_all
qed

lemma emits_emitted:
  "emits P m \<Longrightarrow> history (snd (m w)) = history w @ emitted w (snd (m w)) \<and> P (emitted w (snd (m w)))"
  unfolding emits_def emitted_def
  by (metis append_eq_conv_conj)

text \<open>
  C4: in \<^verbatim>\<open>_prepare\<close>, \<^verbatim>\<open>check_location\<close> and \<^verbatim>\<open>detect_distro\<close>, whatever the collaborators
  return or raise, every \<^verbatim>\<open>prepareLocation\<close> the operation invokes on a fetcher is
  followed, before the operation returns or raises, by a \<^verbatim>\<open>cleanupLocation\<close> on the same
  fetcher; the events the operation adds are appended to the history it started with.
\<close>

theorem cleanup_follows_prepare:
  "released (emitted w1 (snd (prepare os x g m w1)))
   \<and> released (emitted w2 (snd (check_location os x g w2)))
   \<and> released (emitted w3 (snd (detect_distro os x g w3)))
   \<and> history (snd (prepare os x g m w1)) =
       history w1 @ emitted w1 (snd (prepare os x g m w1))
   \<and> history (snd (check_location os x g w2)) =
       history w2 @ emitted w2 (snd (check_location os x g w2))
   \<and> history (snd (detect_distro os x g w3)) =
       history w3 @ emitted w3 (snd (detect_distro os x g w3))"
  using emits_emitted [OF prepare_released] emits_emitted [OF check_location_released]
    emits_emitted [OF detect_distro_released]
  by blast

text \<open>C4: a run of \<^verbatim>\<open>_prepare\<close> in which \<^verbatim>\<open>prepareLocation\<close> raises: the cleanup is invoked and the exception propagates.\<close>

theorem cleanup_follows_prepare_witness:
  "emitted web_world (snd (prepare example_fs ext_prepare_fails example_guest None web_world)) =
     [Call_make_scratchdir, Call_fetcherForURI (Some ''http://example.org/tree''),
      Call_prepareLocation web_fetcher, Call_cleanupLocation web_fetcher]
   \<and> fst (prepare example_fs ext_prepare_fails example_guest None web_world) =
       Inl (Exn OSError ''Network is unreachable'')
   \<and> released (emitted web_world
        (snd (prepare example_fs ext_prepare_fails example_guest None web_world)))
   \<and> released (emitted web_world
        (snd (check_location example_fs ext_prepare_fails example_guest web_world)))
   \<and> released (emitted web_frame
        (snd (detect_distro example_fs ext_prepare_fails example_guest web_frame)))"
  using cleanup_follows_prepare [of web_world example_fs ext_prepare_fails example_guest None
      web_world web_frame]
  by (simp add: prepare_def get_fetcher_def core_defs finally_defs classifier_defs
      local_conn_def example_fs_def example_installer_def example_guest_def example_ext_def
      ext_prepare_fails_def web_fetcher_def web_world_def emitted_def
      isinstance_ValueError_def)

section \<open>Revalidating the location\<close>

lemma validate_location_clears:
  "cached_fetcher (self (snd (validate_location os x val w))) = None
   \<and> cached_store (self (snd (validate_location os x val w))) = None"
  by (simp add: validate_location_def core_defs split: sum.split)

lemma validate_location_ignores_caches:
  "validate_location os x val (w\<lparr>self := (self w)\<lparr>cached_fetcher := cf, cached_store := cs\<rparr>\<rparr>) =
   validate_location os x val (w\<lparr>self := (self w)\<lparr>cached_fetcher := None, cached_store := None\<rparr>\<rparr>)"
  by (simp add: validate_location_def bnd_def update_self_def)

lemma get_fetcher_fresh:
  "cached_fetcher (self w) = None \<Longrightarrow>
   fst (get_fetcher x g m w) =
     (case make_scratchdir x (history w) g of
        Inl e \<Rightarrow> Inl e
      | Inr dir \<Rightarrow>
          (case fetcherForURI x (history w @ [Call_make_scratchdir]) (location (self w)) dir
                  (ensure_meter x m) of
             Inl e \<Rightarrow> Inl e
           | Inr f \<Rightarrow> Inr (f\<lparr>meter := ensure_meter x m\<rparr>)))"
  by (simp add: get_fetcher_def core_defs split: sum.split)

lemma get_store_fresh:
  "cached_store (self w) = None \<Longrightarrow>
   fst (get_store x g f w) = getDistroStore x (history w) g f"
  by (simp add: get_store_def core_defs split: sum.split)

text \<open>
  C5: after every call of \<^verbatim>\<open>_validate_location\<close>, whether it returns or raises, the cached
  fetcher and the cached store are both None; the call behaves the same whatever they
  held before; and the next \<^verbatim>\<open>_get_fetcher\<close> or \<^verbatim>\<open>_get_store\<close> returns what a fresh
  construction by the collaborator returns (or raises what it raises).
\<close>

theorem validate_location_discards_caches:
  "cached_fetcher (self (snd (validate_location os x val w))) = None
   \<and> cached_store (self (snd (validate_location os x val w))) = None
   \<and> validate_location os x val
         (w\<lparr>self := (self w)\<lparr>cached_fetcher := cf, cached_store := cs\<rparr>\<rparr>) =
       validate_location os x val
         (w\<lparr>self := (self w)\<lparr>cached_fetcher := None, cached_store := None\<rparr>\<rparr>)
   \<and> fst (get_fetcher x g m (snd (validate_location os x val w))) =
       (case make_scratchdir x (history (snd (validate_location os x val w))) g of
          Inl e \<Rightarrow> Inl e
        | Inr dir \<Rightarrow>
            (case fetcherForURI x
                    (history (snd (validate_location os x val w)) @ [Call_make_scratchdir])
                    (location (self (snd (validate_location os x val w)))) dir
                    (ensure_meter x m) of
               Inl e \<Rightarrow> Inl e
             | Inr f \<Rightarrow> Inr (f\<lparr>meter := ensure_meter x m\<rparr>)))
   \<and> fst (get_store x g f (snd (validate_location os x val w))) =
       getDistroStore x (history (snd (validate_location os x val w))) g f"
  using validate_location_clears [where os = os and x = x and val = val and w = w]
    validate_location_ignores_caches [where os = os and x = x and val = val and w = w
      and cf = cf and cs = cs]
    get_fetcher_fresh [where w = "snd (validate_location os x val w)" and x = x and g = g
      and m = m]
    get_store_fresh [where w = "snd (validate_location os x val w)" and x = x and g = g
      and f = f]
  by simp

text \<open>C5: an installer with a stale fetcher and a stale store: after revalidation the next accesses return fresh ones.\<close>

theorem validate_location_discards_caches_witness:
  "cached_fetcher (self stale_world) = Some stale_fetcher
   \<and> cached_fetcher (self (snd (validate_location example_fs example_ext
        (Some ''http://example.org/tree'') stale_world))) = None
   \<and> cached_store (self (snd (validate_location example_fs example_ext
        (Some ''http://example.org/tree'') stale_world))) = None
   \<and> fst (get_fetcher example_ext example_guest None
        (snd (validate_location example_fs example_ext
           (Some ''http://example.org/tree'') stale_world))) = Inr web_fetcher
   \<and> fst (get_store example_ext example_guest web_fetcher
        (snd (validate_location example_fs example_ext
           (Some ''http://example.org/tree'') stale_world))) = Inr (Store ''fedora'')"
  using validate_location_discards_caches [of example_fs example_ext
      "Some ''http://example.org/tree''" stale_world None None example_guest None web_fetcher]
  by (simp add: validate_location_def get_fetcher_def get_store_def core_defs is_url_defs
      local_conn_def example_fs_def example_installer_def example_guest_def example_ext_def
      web_fetcher_def stale_fetcher_def stale_world_def)

text \<open>
  C6, as stated: for a location that starts with "nfs:", is not classified as a URL and
  fails device validation, the message of the ValueError raised says that NFS is
  unsupported. This fails: the message holds the location and the cause only.
\<close>

theorem nfs_message_counterexample:
  "fst (validate_location example_fs ext_device_fails (Some ''nfs:host:/tree'') nfs_world) =
     Inl (Exn ValueError (''Validating install media '' @ [CHR 0x27] @ ''nfs:host:/tree'' @
            [CHR 0x27] @ '' failed: Must specify storage creation parameters for '' @
            ''non-existent path.''))
   \<and> \<not> mentions_unsupported (''Validating install media '' @ [CHR 0x27] @ ''nfs:host:/tree'' @
            [CHR 0x27] @ '' failed: Must specify storage creation parameters for '' @
            ''non-existent path.'')"
  by (simp add: validate_location_def core_defs is_url_defs str_val_def local_conn_def
      example_fs_def example_installer_def example_ext_def ext_device_fails_def nfs_world_def
      mentions_unsupported_def
      sublist_code(3))

text \<open>
  C6, amended: for such a location \<^verbatim>\<open>_validate_location\<close> raises a ValueError whose
  message is "Validating install media '<location>' failed: <cause>"; that NFS installs
  are no longer supported is said by a warning that is logged before the exception is
  raised, not by the message of the exception. A failure of the device validation is an
  instance of Exception; what \<^verbatim>\<open>except Exception\<close> does not catch passes through as it is.
\<close>

theorem validate_location_nfs_failure:
  assumes "prefix ''nfs:'' v"
    and "is_url os (conn (self w)) (Some v) = Inr False"
    and "DeviceDisk_validate x (history w) (conn (self w)) (Some v) = Inl e"
  shows "fst (validate_location os x (Some v) w) =
           Inl (if isinstance_Exception e
                then Exn ValueError (''Validating install media '' @ [CHR 0x27] @ v @
                       [CHR 0x27] @ '' failed: '' @ str_exn e)
                else e)
         \<and> emitted w (snd (validate_location os x (Some v) w)) =
             Call_DeviceDisk_validate (Some v) #
               (if isinstance_Exception e
                then [Log DEBUG ''Error validating install location'',
                      Log WARNING nfs_warning]
                else [])
         \<and> mentions_unsupported nfs_warning \<and> sublist ''NFS'' nfs_warning"
proof -
  have "mentions_unsupported nfs_warning \<and> sublist ''NFS'' nfs_warning"
    by (simp add: mentions_unsupported_def nfs_warning_def sublist_code(3))
  with assms show ?thesis
    by (simp add: validate_location_def ret_def throw_def lift_def bnd_def call_def
        logging_def read_self_def update_self_def try_except_def emitted_def startswith_def
        str_val_def)
qed

text \<open>C6: the amended statement at the input of the counterexample.\<close>

theorem validate_location_nfs_failure_witness:
  "prefix ''nfs:'' ''nfs:host:/tree''
   \<and> is_url example_fs (conn (self nfs_world)) (Some ''nfs:host:/tree'') = Inr False
   \<and> DeviceDisk_validate ext_device_fails (history nfs_world) (conn (self nfs_world))
        (Some ''nfs:host:/tree'') =
       Inl (Exn ValueError ''Must specify storage creation parameters for non-existent path.'')
   \<and> emitted nfs_world
        (snd (validate_location example_fs ext_device_fails (Some ''nfs:host:/tree'') nfs_world)) =
       [Call_DeviceDisk_validate (Some ''nfs:host:/tree''),
        Log DEBUG ''Error validating install location'',
        Log WARNING nfs_warning]"
  using validate_location_nfs_failure [of "''nfs:host:/tree''" example_fs nfs_world
      ext_device_fails
      "Exn ValueError ''Must specify storage creation parameters for non-existent path.''"]
  by (simp add: is_url_defs local_conn_def example_fs_def example_installer_def example_ext_def
      ext_device_fails_def nfs_world_def isinstance_Exception_def)

section \<open>Detecting the distribution\<close>





















subsection \<open>What can propagate\<close>






lemma only_throw: "isinstance_Exception e \<Longrightarrow> raises_only_Exception (throw e)"
  by (simp add: raises_only_Exception_def throw_def)









subsection \<open>When it returns, and what\<close>




subsection \<open>The remote case\<close>






section \<open>The node device probe: properties\<close>

lemma loop_all:
  "list_all (survives pe c) hs \<Longrightarrow>
   debugnodedev_loop pe c hs out = (Inr (), out @ map (probe_line pe c) hs)"
  by (induction hs arbitrary: out)
     (auto simp: survives_def probe_line_def split: sum.splits)

lemma loop_abort:
  "list_all (survives pe c) pre \<Longrightarrow> lookupNodedevFromString pe c h = Inl err \<Longrightarrow>
   \<not> isinstance_ValueError err \<Longrightarrow>
   debugnodedev_loop pe c (pre @ h # post) out = (Inl err, out @ map (probe_line pe c) pre)"
  by (induction pre arbitrary: out)
     (auto simp: survives_def probe_line_def split: sum.splits)

text \<open>
  C10: with a connection, the probe prints the banner and then one line per item, in
  order, an OK line when the lookup returns and a FAIL line when it raises a value error;
  it runs through the whole list when every lookup does one or the other; a lookup that
  raises an exception of another class ends the run with that exception, after the lines
  of the items before it.
\<close>

theorem debugnodedev_batch:
  assumes "getConnection pe ''qemu:///system'' = Inr c"
  shows "(list_all (survives pe c) hostdevs \<longrightarrow>
            debugnodedev pe hostdevs out =
              (Inr (), out @ banner # map (probe_line pe c) hostdevs))
       \<and> (list_all (survives pe c) pre \<and> lookupNodedevFromString pe c h = Inl err
            \<and> \<not> isinstance_ValueError err \<longrightarrow>
            debugnodedev pe (pre @ h # post) out =
              (Inl err, out @ banner # map (probe_line pe c) pre))
       \<and> (prefix ''OK   - '' (probe_line pe c item) \<or> prefix ''FAIL - '' (probe_line pe c item))"
  using assms loop_all [where pe = pe and c = c and hs = hostdevs and out = "out @ [banner]"]
    loop_abort [where pe = pe and c = c and pre = pre and h = h and err = err and post = post
      and out = "out @ [banner]"]
  by (simp add: debugnodedev_def probe_line_def split: sum.split)

text \<open>C10: three items of which the second is unknown; a lookup that fails otherwise.\<close>

theorem debugnodedev_batch_witness:
  "getConnection example_probe ''qemu:///system'' = Inr local_conn
   \<and> list_all (survives example_probe local_conn) [''pci_0000_00_1f_2'', ''bogus'', ''usb_usb1'']
   \<and> debugnodedev example_probe [''pci_0000_00_1f_2'', ''bogus'', ''usb_usb1''] [] =
       (Inr (),
        [banner,
         ''OK   - hostdev pci_0000_00_1f_2 maps to pci_0000_00_1f_2'',
         ''FAIL - failed to query hostdev bogus - Did not find a matching node device'',
         ''OK   - hostdev usb_usb1 maps to usb_usb1''])
   \<and> list_all (survives example_probe local_conn) [''bogus'']
   \<and> lookupNodedevFromString example_probe local_conn ''broken'' =
       Inl (Exn RuntimeError ''connection lost'')
   \<and> \<not> isinstance_ValueError (Exn RuntimeError ''connection lost'')
   \<and> debugnodedev example_probe ([''bogus''] @ ''broken'' # [''usb_usb1'']) [] =
       (Inl (Exn RuntimeError ''connection lost''),
        [banner,
         ''FAIL - failed to query hostdev bogus - Did not find a matching node device''])"
  using debugnodedev_batch [of example_probe local_conn
      "[''pci_0000_00_1f_2'', ''bogus'', ''usb_usb1'']" "[]" "[''bogus'']" "''broken''"
      "Exn RuntimeError ''connection lost''" "[''usb_usb1'']" "''bogus''"]
  by (simp add: local_conn_def example_probe_def survives_def probe_line_def isinstance_ValueError_def)

end
